theory Spec2Isabelle
  imports Main
begin

section \<open>Values\<close>

text \<open>
  A Reference (\<^verbatim>\<open>src/lib/modules/database/reference.js\<close>) holds a path and a Query
  object. No method of the class assigns to \<^verbatim>\<open>this.path\<close> or \<^verbatim>\<open>this.query\<close> after the
  constructor, so a Reference is a value: its path, and the address of its Query object in
  the store of modifier lists below. Every Reference made by a method carries the database
  handle of the Reference it was made from; the collaborators reached through that handle
  are the parameters collected in \<open>collab\<close>.
\<close>

record reference =
  path :: string
  query :: nat

text \<open>
  JavaScript values as the methods see them. Numbers are the integers and \<open>NaN\<close>; no
  operation below computes with them. \<open>Fun n\<close> is the function object with identity \<open>n\<close>,
  \<open>ErrorV m\<close> is \<^verbatim>\<open>new Error(m)\<close>, \<open>SnapV r d\<close> is \<^verbatim>\<open>new Snapshot(r, d)\<close>.
\<close>

datatype jsval =
    Undefined
  | Null
  | Bool bool
  | Num int
  | NaN
  | Str string
  | Arr "jsval list"
  | Obj "(string \<times> jsval) list"
  | Fun nat
  | ErrorV string
  | RefV reference
  | SnapV reference jsval

text \<open>The \<^verbatim>\<open>typeof\<close> operator of the language; \<^verbatim>\<open>typeof null\<close> is \<^verbatim>\<open>"object"\<close>.\<close>

fun typeof :: "jsval \<Rightarrow> string" where
  "typeof Undefined = ''undefined''"
| "typeof Null = ''object''"
| "typeof (Bool b) = ''boolean''"
| "typeof (Num n) = ''number''"
| "typeof NaN = ''number''"
| "typeof (Str s) = ''string''"
| "typeof (Fun n) = ''function''"
| "typeof (Arr xs) = ''object''"
| "typeof (Obj kvs) = ''object''"
| "typeof (ErrorV m) = ''object''"
| "typeof (RefV r) = ''object''"
| "typeof (SnapV r d) = ''object''"

text \<open>The truthiness test of \<^verbatim>\<open>if (x)\<close> and \<^verbatim>\<open>x && y\<close>.\<close>

fun truthy :: "jsval \<Rightarrow> bool" where
  "truthy Undefined = False"
| "truthy Null = False"
| "truthy (Bool b) = b"
| "truthy (Num n) = (n \<noteq> 0)"
| "truthy NaN = False"
| "truthy (Str s) = (s \<noteq> [])"
| "truthy (Fun n) = True"
| "truthy (Arr xs) = True"
| "truthy (Obj kvs) = True"
| "truthy (ErrorV m) = True"
| "truthy (RefV r) = True"
| "truthy (SnapV r d) = True"

text \<open>
  Modelled from the spec: \<^verbatim>\<open>isFunction\<close> of \<^verbatim>\<open>./../../utils\<close> is not among the sources.
  The spec calls a value that passes it invocable.
\<close>

fun isFunction :: "jsval \<Rightarrow> bool" where
  "isFunction (Fun n) = True"
| "isFunction v = False"

text \<open>
  Modelled from the spec: \<^verbatim>\<open>isObject\<close> of \<^verbatim>\<open>./../../utils\<close> is not among the sources.
  The spec has it hold of mapping inputs, and states that \<^verbatim>\<open>isObject(null)\<close> is false.
\<close>

fun isObject :: "jsval \<Rightarrow> bool" where
  "isObject (Obj kvs) = True"
| "isObject v = False"

section \<open>Collaborators, store and trace\<close>

text \<open>
  What a method leaves behind is recorded in a trace: a call that crosses the transport
  boundary (\<^verbatim>\<open>promisify(name, FirebaseDatabase)(args)\<close>), a registration with the listener
  registry (\<^verbatim>\<open>database.on\<close>), an entry in the transaction queue
  (\<^verbatim>\<open>database.transaction.add\<close>), the invocation of a caller's callback, and the calls of
  \<^verbatim>\<open>resolve\<close> and \<^verbatim>\<open>reject\<close> made by the completion adapter of \<^verbatim>\<open>transaction\<close>.
  Calls of \<^verbatim>\<open>this.log.debug\<close> are left out.
\<close>

datatype event =
    Native string "jsval list"
  | ListenerOn string string "string list" jsval jsval jsval
  | TransactionAdd reference jsval jsval
  | Call jsval "jsval list"
  | ResolveCall jsval
  | RejectCall jsval

text \<open>
  The store gives every Query object, by address, the modifier list it holds
  (\<^verbatim>\<open>Array<string>\<close> in the constructor's signature); \<open>next_query\<close> is the first address
  not yet taken.
\<close>

record world =
  cells :: "nat \<Rightarrow> string list"
  next_query :: nat
  trace :: "event list"

text \<open>
  The parts of the repository that \<^verbatim>\<open>reference.js\<close> calls and that are not among the
  sources are parameters:
  \<^item> \<open>serverTimeOffset\<close> and \<open>toFirebaseError\<close>: \<^verbatim>\<open>database.serverTimeOffset\<close> and
    \<^verbatim>\<open>database._toFirebaseError\<close>;
  \<^item> \<open>generatePushID\<close>, \<open>tryJSONStringify\<close>, \<open>tryJSONParse\<close>: the helpers of \<^verbatim>\<open>utils\<close>
    (\<open>generatePushID\<close> gives the identifier the generator returns at this call);
  \<^item> \<open>set_order_by\<close>, \<open>set_limit\<close>, \<open>set_filter\<close>: what \<^verbatim>\<open>Query.setOrderBy\<close>,
    \<^verbatim>\<open>Query.setLimit\<close> and \<^verbatim>\<open>Query.setFilter\<close> make of the Query's own modifier list,
    \<open>Inr\<close> the new list, \<open>Inl\<close> a value thrown;
  \<^item> \<open>modifiers_string\<close>: the encoding behind \<^verbatim>\<open>Query.getModifiersString\<close>;
  \<^item> \<open>snapshot_throws\<close>: \<open>Some x\<close> when \<^verbatim>\<open>new Snapshot(reference, data)\<close> throws \<open>x\<close>, \<open>None\<close>
    when it returns the Snapshot (the class \<^verbatim>\<open>Snapshot\<close> is not among the sources);
  \<^item> \<open>callback_result\<close>: the value a caller's callback returns when \<^verbatim>\<open>push\<close> or \<^verbatim>\<open>once\<close>
    invokes it with the given arguments. In these two promise chains a callback is taken
    to return; one that throws there is outside this model.
\<close>

record collab =
  serverTimeOffset :: jsval
  toFirebaseError :: "jsval \<Rightarrow> jsval"
  generatePushID :: "jsval \<Rightarrow> string"
  tryJSONStringify :: "jsval \<Rightarrow> jsval"
  tryJSONParse :: "jsval \<Rightarrow> jsval"
  set_order_by :: "string \<Rightarrow> jsval \<Rightarrow> string list \<Rightarrow> jsval + string list"
  set_limit :: "string \<Rightarrow> jsval \<Rightarrow> string list \<Rightarrow> jsval + string list"
  set_filter :: "string \<Rightarrow> jsval \<Rightarrow> jsval \<Rightarrow> string list \<Rightarrow> jsval + string list"
  modifiers_string :: "string list \<Rightarrow> string"
  snapshot_throws :: "reference \<Rightarrow> jsval \<Rightarrow> jsval option"
  callback_result :: "jsval \<Rightarrow> jsval list \<Rightarrow> jsval"

definition record_event :: "event \<Rightarrow> world \<Rightarrow> world" where
  "record_event e w = w\<lparr>trace := trace w @ [e]\<rparr>"

definition invoke :: "collab \<Rightarrow> jsval \<Rightarrow> jsval list \<Rightarrow> world \<Rightarrow> world \<times> jsval" where
  "invoke E f args w = (record_event (Call f args) w, callback_result E f args)"

section \<open>Query and the Reference constructor\<close>

text \<open>
  Modelled from the spec: the class \<^verbatim>\<open>Query\<close> (\<^verbatim>\<open>./query.js\<close>) is not among the sources.
  By the spec a Reference built by a fluent call gets a copied ModifierSet, the copy being
  made before the new modifier is applied; a Reference built without modifiers gets a fresh
  empty one. The constructor therefore takes a new address and stores there a list of its
  own.
\<close>

definition Query_new :: "world \<Rightarrow> string list option \<Rightarrow> world \<times> nat" where
  "Query_new w existingModifiers =
     (w\<lparr>cells := (cells w)(next_query w :=
            (case existingModifiers of None \<Rightarrow> [] | Some ms \<Rightarrow> ms)),
        next_query := Suc (next_query w)\<rparr>,
      next_query w)"

text \<open>
  Modelled from the spec: \<^verbatim>\<open>Query.getModifiers\<close> returns the ordered sequence of modifiers
  of the Query, \<^verbatim>\<open>Query.getModifiersString\<close> its encoded key.
\<close>

definition getModifiers :: "world \<Rightarrow> nat \<Rightarrow> string list" where
  "getModifiers w q = cells w q"

definition getModifiersString :: "collab \<Rightarrow> world \<Rightarrow> nat \<Rightarrow> string" where
  "getModifiersString E w q = modifiers_string E (cells w q)"

text \<open>
  Modelled from the spec: a setter of \<^verbatim>\<open>Query\<close> changes the modifier list of the Query it
  is called on, or fails synchronously; the change itself is the parameter \<open>f\<close>.
\<close>

definition Query_set :: "(string list \<Rightarrow> jsval + string list) \<Rightarrow> nat \<Rightarrow> world \<Rightarrow> world \<times> (jsval + unit)" where
  "Query_set f q w =
     (case f (cells w q) of
        Inl e \<Rightarrow> (w, Inl e)
      | Inr ms \<Rightarrow> (w\<lparr>cells := (cells w)(q := ms)\<rparr>, Inr ()))"

text \<open>
  The constructor (lines 23--29): \<^verbatim>\<open>super(database.firebase, path)\<close> and
  \<^verbatim>\<open>this.query = new Query(this, path, existingModifiers)\<close>. The class \<^verbatim>\<open>ReferenceBase\<close>
  (\<^verbatim>\<open>./../base\<close>) is not among the sources; it is taken to keep the path it is given, which
  is how the spec describes a Reference (database handle, path, ModifierSet). What it
  makes of an empty path is not modelled.
\<close>

definition Reference_new :: "world \<Rightarrow> string \<Rightarrow> string list option \<Rightarrow> world \<times> reference" where
  "Reference_new w p existingModifiers =
     (case Query_new w existingModifiers of
        (w', q) \<Rightarrow> (w', \<lparr>path = p, query = q\<rparr>))"

section \<open>Pending results\<close>

text \<open>
  A pending result is modelled by how it settles. \<open>then_p\<close> and \<open>catch_p\<close> are
  \<^verbatim>\<open>.then(f)\<close> and \<^verbatim>\<open>.catch(g)\<close>: a handler that returns \<open>v\<close> fulfils with \<open>v\<close>, one that
  returns \<^verbatim>\<open>Promise.reject(e)\<close> rejects with \<open>e\<close>. The transport boundary answers a call
  with \<open>Resolves payload\<close> or \<open>Rejects error\<close>; the payload of \<^verbatim>\<open>push\<close> is the \<^verbatim>\<open>ref\<close>
  field and that of \<^verbatim>\<open>once\<close> the \<^verbatim>\<open>snapshot\<close> field of the object the bridge resolves
  with.
\<close>

datatype 'a settled = Fulfilled 'a | Rejected jsval

datatype 'a outcome = Resolves 'a | Rejects jsval

definition promisify :: "string \<Rightarrow> jsval list \<Rightarrow> 'a outcome \<Rightarrow> world \<Rightarrow> world \<times> 'a settled" where
  "promisify name args answer w =
     (record_event (Native name args) w,
      case answer of Resolves v \<Rightarrow> Fulfilled v | Rejects e \<Rightarrow> Rejected e)"

definition then_p :: "world \<times> 'a settled \<Rightarrow> ('a \<Rightarrow> world \<Rightarrow> world \<times> 'b settled) \<Rightarrow> world \<times> 'b settled" where
  "then_p p f =
     (case p of
        (w, Fulfilled v) \<Rightarrow> f v w
      | (w, Rejected e) \<Rightarrow> (w, Rejected e))"

definition catch_p :: "world \<times> 'a settled \<Rightarrow> (jsval \<Rightarrow> world \<Rightarrow> world \<times> 'a settled) \<Rightarrow> world \<times> 'a settled" where
  "catch_p p g =
     (case p of
        (w, Fulfilled v) \<Rightarrow> (w, Fulfilled v)
      | (w, Rejected e) \<Rightarrow> g e w)"

section \<open>Serialization helpers\<close>

text \<open>\<^verbatim>\<open>_serializeObject\<close> (lines 377--383).\<close>

definition serializeObject :: "collab \<Rightarrow> jsval \<Rightarrow> jsval" where
  "serializeObject E obj =
     (if \<not> isObject obj then obj else tryJSONParse E (tryJSONStringify E obj))"

text \<open>
  \<^verbatim>\<open>_serializeAnyType\<close> (lines 391--403); the object literal \<^verbatim>\<open>{type, value}\<close> is the
  mapping with these two keys.
\<close>

definition serializeAnyType :: "collab \<Rightarrow> jsval \<Rightarrow> jsval" where
  "serializeAnyType E v =
     (if isObject v then
        Obj [(''type'', Str ''object''), (''value'', serializeObject E v)]
      else
        Obj [(''type'', Str (typeof v)), (''value'', v)])"

text \<open>\<^verbatim>\<open>set\<close> (lines 46--50).\<close>

definition set_value :: "collab \<Rightarrow> reference \<Rightarrow> jsval \<Rightarrow> jsval outcome \<Rightarrow> world \<Rightarrow> world \<times> jsval settled" where
  "set_value E R v answer w =
     promisify ''set'' [Str (path R), serializeAnyType E v] answer w"

section \<open>Operations of Reference\<close>

text \<open>
  \<^verbatim>\<open>push\<close> (lines 77--94). With no value it returns a Reference at once; with a value it
  returns the pending result of the chain \<^verbatim>\<open>promisify(...)(...).then(...).catch(...)\<close>.
\<close>

datatype push_result = Synchronous reference | Pending_result "jsval settled"

definition push :: "collab \<Rightarrow> reference \<Rightarrow> jsval \<Rightarrow> jsval \<Rightarrow> string outcome \<Rightarrow> world \<Rightarrow> world \<times> push_result" where
  "push E R v onComplete answer w =
     (if v = Null \<or> v = Undefined then
        (case Reference_new w (path R @ ''/'' @ generatePushID E (serverTimeOffset E)) None of
           (w', newRef) \<Rightarrow> (w', Synchronous newRef))
      else
        (case
           catch_p
             (then_p (promisify ''push'' [Str (path R), serializeAnyType E v] answer w)
                (\<lambda>ref w1.
                   case Reference_new w1 ref None of
                     (w2, newRef) \<Rightarrow>
                       if isFunction onComplete then
                         (case invoke E onComplete [Null, RefV newRef] w2 of
                            (w3, r) \<Rightarrow> (w3, Fulfilled r))
                       else (w2, Fulfilled (RefV newRef))))
             (\<lambda>e w1.
                if isFunction onComplete then
                  (case invoke E onComplete [e, Null] w1 of
                     (w2, r) \<Rightarrow> (w2, Fulfilled r))
                else (w1, Fulfilled e))
         of (w', s) \<Rightarrow> (w', Pending_result s)))"

text \<open>
  \<^verbatim>\<open>on\<close> (lines 104--113): \<open>Inl\<close> is the error thrown, \<open>Inr\<close> the value returned.
\<close>

definition on :: "collab \<Rightarrow> reference \<Rightarrow> jsval \<Rightarrow> jsval \<Rightarrow> jsval \<Rightarrow> world \<Rightarrow> world \<times> (jsval + jsval)" where
  "on E R eventType successCallback failureCallback w =
     (if \<not> isFunction successCallback then
        (w, Inl (ErrorV ''The specified callback must be a function''))
      else if truthy failureCallback \<and> \<not> isFunction failureCallback then
        (w, Inl (ErrorV ''The specified error callback must be a function''))
      else
        (record_event
           (ListenerOn (path R) (getModifiersString E w (query R)) (getModifiers w (query R))
              eventType successCallback failureCallback) w,
         Inr successCallback))"


text \<open>
  \<^verbatim>\<open>transaction\<close> (lines 160--187). The pending result made by \<^verbatim>\<open>new Promise\<close> starts
  \<open>Pending\<close>; \<^verbatim>\<open>resolve\<close> and \<^verbatim>\<open>reject\<close> settle it if it is still pending.
  \<open>onCompleteWrapper\<close> is the completion adapter handed to the transaction queue. What the
  queue does with it is the parameter \<open>report\<close>: \<open>None\<close> when the queue never calls the
  adapter, \<open>Some (error, committed, snapshotData)\<close> when it calls it, after
  \<^verbatim>\<open>transaction.add\<close> has returned, with these arguments.

  The adapter has no \<^verbatim>\<open>try\<close>: it runs outside any promise handler, so a value thrown by
  onComplete (lines 171 and 179) or by \<^verbatim>\<open>new Snapshot\<close> (line 176) leaves the adapter at
  that point, before \<^verbatim>\<open>reject\<close> or \<^verbatim>\<open>resolve\<close> is reached. The parameter \<open>completes\<close> says
  how the caller's onComplete ends when the adapter invokes it with the given arguments:
  it returns a value or throws one. The adapter gives back, next to the state, the value
  that left it (\<open>Some x\<close>) or \<open>None\<close> when it returned.
\<close>

datatype pstate = Pending | Settled "jsval settled"

datatype completion = Returns jsval | Throws jsval

definition resolve :: "jsval \<Rightarrow> world \<times> pstate \<Rightarrow> world \<times> pstate" where
  "resolve v s =
     (case s of (w, p) \<Rightarrow>
        (record_event (ResolveCall v) w,
         case p of Pending \<Rightarrow> Settled (Fulfilled v) | Settled x \<Rightarrow> Settled x))"

definition reject :: "jsval \<Rightarrow> world \<times> pstate \<Rightarrow> world \<times> pstate" where
  "reject e s =
     (case s of (w, p) \<Rightarrow>
        (record_event (RejectCall e) w,
         case p of Pending \<Rightarrow> Settled (Rejected e) | Settled x \<Rightarrow> Settled x))"

definition called :: "jsval \<Rightarrow> jsval list \<Rightarrow> world \<times> pstate \<Rightarrow> world \<times> pstate" where
  "called f args s = (case s of (w, p) \<Rightarrow> (record_event (Call f args) w, p))"

definition onCompleteWrapper :: "collab \<Rightarrow> (jsval list \<Rightarrow> completion) \<Rightarrow> reference \<Rightarrow> jsval \<Rightarrow> jsval \<Rightarrow> jsval \<Rightarrow> jsval \<Rightarrow> world \<times> pstate \<Rightarrow> (world \<times> pstate) \<times> jsval option" where
  "onCompleteWrapper E completes R onComplete error committed snapshotData s =
     (if truthy error then
        (if typeof onComplete = ''function'' then
           (case completes [error, committed, Null] of
              Throws x \<Rightarrow> (called onComplete [error, committed, Null] s, Some x)
            | Returns r \<Rightarrow>
                (reject error (called onComplete [error, committed, Null] s), None))
         else (reject error s, None))
      else
        (case snapshot_throws E R snapshotData of
           Some x \<Rightarrow> (s, Some x)
         | None \<Rightarrow>
             (if typeof onComplete = ''function'' then
                (case completes [Null, committed, SnapV R snapshotData] of
                   Throws x \<Rightarrow>
                     (called onComplete [Null, committed, SnapV R snapshotData] s, Some x)
                 | Returns r \<Rightarrow>
                     (resolve
                        (Obj [(''committed'', committed), (''snapshot'', SnapV R snapshotData)])
                        (called onComplete [Null, committed, SnapV R snapshotData] s),
                      None))
              else
                (resolve
                   (Obj [(''committed'', committed), (''snapshot'', SnapV R snapshotData)]) s,
                 None))))"

definition transaction :: "collab \<Rightarrow> (jsval list \<Rightarrow> completion) \<Rightarrow> reference \<Rightarrow> jsval \<Rightarrow> jsval \<Rightarrow> jsval \<Rightarrow> (jsval \<times> jsval \<times> jsval) option \<Rightarrow> world \<Rightarrow> world \<times> pstate" where
  "transaction E completes R transactionUpdate onComplete applyLocally report w =
     (if \<not> isFunction transactionUpdate then
        (w, Settled (Rejected (ErrorV ''Missing transactionUpdate function argument.'')))
      else
        (case report of
           None \<Rightarrow>
             (record_event
                (TransactionAdd R transactionUpdate
                   (if applyLocally = Undefined then Bool False else applyLocally)) w,
              Pending)
         | Some (error, committed, snapshotData) \<Rightarrow>
             fst (onCompleteWrapper E completes R onComplete error committed snapshotData
               (record_event
                  (TransactionAdd R transactionUpdate
                     (if applyLocally = Undefined then Bool False else applyLocally)) w,
                Pending))))"

subsection \<open>Fluent builders\<close>

text \<open>
  \<^verbatim>\<open>orderBy\<close> (lines 232--236), \<^verbatim>\<open>limit\<close> (lines 266--270) and \<^verbatim>\<open>filter\<close> (lines
  313--317): a new Reference from \<^verbatim>\<open>this.path\<close> and \<^verbatim>\<open>this.query.getModifiers()\<close>, then one
  setter call on the Query of the new Reference. A value thrown by the setter leaves the
  method as it is (\<open>Inl\<close>).
\<close>

definition orderBy :: "collab \<Rightarrow> reference \<Rightarrow> string \<Rightarrow> jsval \<Rightarrow> world \<Rightarrow> world \<times> (jsval + reference)" where
  "orderBy E R name key w =
     (case Reference_new w (path R) (Some (getModifiers w (query R))) of
        (w1, newRef) \<Rightarrow>
          (case Query_set (set_order_by E name key) (query newRef) w1 of
             (w2, Inl e) \<Rightarrow> (w2, Inl e)
           | (w2, Inr u) \<Rightarrow> (w2, Inr newRef)))"

definition limit :: "collab \<Rightarrow> reference \<Rightarrow> string \<Rightarrow> jsval \<Rightarrow> world \<Rightarrow> world \<times> (jsval + reference)" where
  "limit E R name n w =
     (case Reference_new w (path R) (Some (getModifiers w (query R))) of
        (w1, newRef) \<Rightarrow>
          (case Query_set (set_limit E name n) (query newRef) w1 of
             (w2, Inl e) \<Rightarrow> (w2, Inl e)
           | (w2, Inr u) \<Rightarrow> (w2, Inr newRef)))"

definition filter_by :: "collab \<Rightarrow> reference \<Rightarrow> string \<Rightarrow> jsval \<Rightarrow> jsval \<Rightarrow> world \<Rightarrow> world \<times> (jsval + reference)" where
  "filter_by E R name v key w =
     (case Reference_new w (path R) (Some (getModifiers w (query R))) of
        (w1, newRef) \<Rightarrow>
          (case Query_set (set_filter E name v key) (query newRef) w1 of
             (w2, Inl e) \<Rightarrow> (w2, Inl e)
           | (w2, Inr u) \<Rightarrow> (w2, Inr newRef)))"

text \<open>The nine public builders (lines 197--224, 247--258, 282--304).\<close>

definition orderByKey :: "collab \<Rightarrow> reference \<Rightarrow> world \<Rightarrow> world \<times> (jsval + reference)" where
  "orderByKey E R = orderBy E R ''orderByKey'' Undefined"

definition orderByPriority :: "collab \<Rightarrow> reference \<Rightarrow> world \<Rightarrow> world \<times> (jsval + reference)" where
  "orderByPriority E R = orderBy E R ''orderByPriority'' Undefined"

definition orderByValue :: "collab \<Rightarrow> reference \<Rightarrow> world \<Rightarrow> world \<times> (jsval + reference)" where
  "orderByValue E R = orderBy E R ''orderByValue'' Undefined"

definition orderByChild :: "collab \<Rightarrow> reference \<Rightarrow> jsval \<Rightarrow> world \<Rightarrow> world \<times> (jsval + reference)" where
  "orderByChild E R key = orderBy E R ''orderByChild'' key"

definition limitToLast :: "collab \<Rightarrow> reference \<Rightarrow> jsval \<Rightarrow> world \<Rightarrow> world \<times> (jsval + reference)" where
  "limitToLast E R n = limit E R ''limitToLast'' n"

definition limitToFirst :: "collab \<Rightarrow> reference \<Rightarrow> jsval \<Rightarrow> world \<Rightarrow> world \<times> (jsval + reference)" where
  "limitToFirst E R n = limit E R ''limitToFirst'' n"

definition equalTo :: "collab \<Rightarrow> reference \<Rightarrow> jsval \<Rightarrow> jsval \<Rightarrow> world \<Rightarrow> world \<times> (jsval + reference)" where
  "equalTo E R v key = filter_by E R ''equalTo'' v key"

definition endAt :: "collab \<Rightarrow> reference \<Rightarrow> jsval \<Rightarrow> jsval \<Rightarrow> world \<Rightarrow> world \<times> (jsval + reference)" where
  "endAt E R v key = filter_by E R ''endAt'' v key"

definition startAt :: "collab \<Rightarrow> reference \<Rightarrow> jsval \<Rightarrow> jsval \<Rightarrow> world \<Rightarrow> world \<times> (jsval + reference)" where
  "startAt E R v key = filter_by E R ''startAt'' v key"

text \<open>
  A call of one of the nine builders with its arguments, the method it reaches, and the one
  change it asks the Query of the new Reference to make.
\<close>

datatype builder_call =
    OrderByKey
  | OrderByPriority
  | OrderByValue
  | OrderByChild jsval
  | LimitToLast jsval
  | LimitToFirst jsval
  | EqualTo jsval jsval
  | EndAt jsval jsval
  | StartAt jsval jsval

fun fluent :: "collab \<Rightarrow> builder_call \<Rightarrow> reference \<Rightarrow> world \<Rightarrow> world \<times> (jsval + reference)" where
  "fluent E OrderByKey R = orderByKey E R"
| "fluent E OrderByPriority R = orderByPriority E R"
| "fluent E OrderByValue R = orderByValue E R"
| "fluent E (OrderByChild key) R = orderByChild E R key"
| "fluent E (LimitToLast n) R = limitToLast E R n"
| "fluent E (LimitToFirst n) R = limitToFirst E R n"
| "fluent E (EqualTo v key) R = equalTo E R v key"
| "fluent E (EndAt v key) R = endAt E R v key"
| "fluent E (StartAt v key) R = startAt E R v key"

fun modifier_change :: "collab \<Rightarrow> builder_call \<Rightarrow> string list \<Rightarrow> jsval + string list" where
  "modifier_change E OrderByKey = set_order_by E ''orderByKey'' Undefined"
| "modifier_change E OrderByPriority = set_order_by E ''orderByPriority'' Undefined"
| "modifier_change E OrderByValue = set_order_by E ''orderByValue'' Undefined"
| "modifier_change E (OrderByChild key) = set_order_by E ''orderByChild'' key"
| "modifier_change E (LimitToLast n) = set_limit E ''limitToLast'' n"
| "modifier_change E (LimitToFirst n) = set_limit E ''limitToFirst'' n"
| "modifier_change E (EqualTo v key) = set_filter E ''equalTo'' v key"
| "modifier_change E (EndAt v key) = set_filter E ''endAt'' v key"
| "modifier_change E (StartAt v key) = set_filter E ''startAt'' v key"

subsection \<open>Navigation\<close>

text \<open>
  \<^verbatim>\<open>String.prototype.lastIndexOf\<close> for a one-character search string (\<open>-1\<close> when the
  character does not occur) and \<^verbatim>\<open>String.prototype.substring\<close> (both arguments clamped to
  the length of the string, and swapped when the first is the larger).
\<close>

fun lastIndexOf :: "string \<Rightarrow> char \<Rightarrow> int" where
  "lastIndexOf [] c = - 1"
| "lastIndexOf (x # xs) c =
     (if 0 \<le> lastIndexOf xs c then lastIndexOf xs c + 1
      else if x = c then 0 else - 1)"

definition substring :: "string \<Rightarrow> int \<Rightarrow> int \<Rightarrow> string" where
  "substring s i j =
     (let n = int (length s);
          a = max 0 (min i n);
          b = max 0 (min j n)
      in take (nat (max a b - min a b)) (drop (nat (min a b)) s))"

text \<open>\<^verbatim>\<open>child\<close> (lines 332--334).\<close>

definition child :: "reference \<Rightarrow> string \<Rightarrow> world \<Rightarrow> world \<times> reference" where
  "child R p w = Reference_new w (path R @ ''/'' @ p) None"

text \<open>The getter \<^verbatim>\<open>parent\<close> (lines 352--355); \<open>None\<close> is \<^verbatim>\<open>null\<close>.\<close>

definition parent :: "reference \<Rightarrow> world \<Rightarrow> world \<times> reference option" where
  "parent R w =
     (if path R = ''/'' then (w, None)
      else
        (case Reference_new w (substring (path R) 0 (lastIndexOf (path R) CHR ''/'')) None of
           (w', r) \<Rightarrow> (w', Some r)))"

text \<open>
  Paths in the words of the spec: a path is a slash-delimited string that identifies a
  node, and it is normalized when it has no trailing slash, the root \<open>/\<close> excepted.
  \<open>segments\<close> gives the segments of a path, what lies between its slashes with the empty
  pieces dropped; two paths identify the same node when their segments agree.
\<close>

definition normalized_path :: "string \<Rightarrow> bool" where
  "normalized_path s =
     (s = ''/'' \<or> (case rev s of [] \<Rightarrow> True | c # cs \<Rightarrow> c \<noteq> CHR ''/''))"

fun segments_acc :: "string \<Rightarrow> string \<Rightarrow> string list" where
  "segments_acc cur [] = (if cur = [] then [] else [cur])"
| "segments_acc cur (c # cs) =
     (if c = CHR ''/'' then (if cur = [] then segments_acc [] cs else cur # segments_acc [] cs)
      else segments_acc (cur @ [c]) cs)"

definition segments :: "string \<Rightarrow> string list" where
  "segments s = segments_acc [] s"

section \<open>Observations and sample values\<close>

text \<open>The calls of \<^verbatim>\<open>resolve\<close> and \<^verbatim>\<open>reject\<close> in a trace.\<close>

fun is_settle_call :: "event \<Rightarrow> bool" where
  "is_settle_call (ResolveCall v) = True"
| "is_settle_call (RejectCall e) = True"
| "is_settle_call ev = False"

definition settle_calls :: "event list \<Rightarrow> event list" where
  "settle_calls tr = filter is_settle_call tr"

text \<open>
  Sample collaborators, a sample store and a sample Reference, for evaluating the
  operations at concrete inputs. The sample \<open>set_limit\<close> refuses a count that is not a
  non-negative integer, the other setters append the name of the modifier; the sample
  Snapshot constructor throws on the data \<^verbatim>\<open>null\<close>.
\<close>

definition example_collab :: collab where
  "example_collab =
     \<lparr>serverTimeOffset = Num 42,
      toFirebaseError = (\<lambda>e. Obj [(''code'', Str ''DATABASE/UNKNOWN''), (''cause'', e)]),
      generatePushID = (\<lambda>offset. ''-KpushId0000000000001''),
      tryJSONStringify = (\<lambda>v. v),
      tryJSONParse = (\<lambda>v. v),
      set_order_by = (\<lambda>name key ms. Inr (ms @ [name])),
      set_limit = (\<lambda>name n ms.
         case n of
           Num k \<Rightarrow>
             (if 0 \<le> k then Inr (ms @ [name]) else Inl (ErrorV ''InvalidModifierError''))
         | _ \<Rightarrow> Inl (ErrorV ''InvalidModifierError'')),
      set_filter = (\<lambda>name v key ms. Inr (ms @ [name])),
      modifiers_string = (\<lambda>ms. concat ms),
      snapshot_throws = (\<lambda>r d. if d = Null then Some (ErrorV ''TypeError'') else None),
      callback_result = (\<lambda>f args. Undefined)\<rparr>"

definition example_world :: world where
  "example_world =
     \<lparr>cells = (\<lambda>q. if q = 0 then [''orderByKey''] else []), next_query = 1, trace = []\<rparr>"

definition example_ref :: reference where
  "example_ref = \<lparr>path = ''/users'', query = 0\<rparr>"

section \<open>Fluent builders leave the receiver alone\<close>

lemma fluent_unfold:
  "fluent E b R w =
     (case Reference_new w (path R) (Some (getModifiers w (query R))) of
        (w1, newRef) \<Rightarrow>
          (case Query_set (modifier_change E b) (query newRef) w1 of
             (w2, Inl e) \<Rightarrow> (w2, Inl e)
           | (w2, Inr u) \<Rightarrow> (w2, Inr newRef)))"
  by (cases b)
    (simp_all add: orderByKey_def orderByPriority_def orderByValue_def orderByChild_def
      limitToLast_def limitToFirst_def equalTo_def endAt_def startAt_def
      orderBy_def limit_def filter_by_def)

lemma fluent_cells:
  "cells (fst (fluent E b R w)) =
     (case modifier_change E b (cells w (query R)) of
        Inl e \<Rightarrow> (cells w)(next_query w := cells w (query R))
      | Inr ms \<Rightarrow> (cells w)(next_query w := ms))"
  by (simp add: fluent_unfold Reference_new_def Query_new_def Query_set_def getModifiers_def
      split: sum.split)

lemma fluent_result:
  "snd (fluent E b R w) =
     (case modifier_change E b (cells w (query R)) of
        Inl e \<Rightarrow> Inl e
      | Inr ms \<Rightarrow> Inr \<lparr>path = path R, query = next_query w\<rparr>)"
  by (simp add: fluent_unfold Reference_new_def Query_new_def Query_set_def getModifiers_def
      split: sum.split)

lemma fluent_trace: "trace (fst (fluent E b R w)) = trace w"
  by (simp add: fluent_unfold Reference_new_def Query_new_def Query_set_def getModifiers_def
      split: sum.split)

text \<open>
  Claim C1. Let \<open>R\<close> be a Reference of the store (its Query was allocated before the call).
  After any of the nine fluent builders has been called on \<open>R\<close>, the modifier list and the
  encoded key of \<open>R\<close>, and of every other Query allocated before the call, are what they
  were, and nothing has crossed the transport boundary. The call makes one change, on a
  copy of the modifier list of \<open>R\<close>: when the Query accepts it, the call returns a new
  Reference with the path of \<open>R\<close> whose Query, at a fresh address, holds the changed copy;
  when the Query throws, the call throws the same value.
\<close>

theorem fluent_builder_frame:
  assumes "query R < next_query w"
  shows "getModifiers (fst (fluent E b R w)) (query R) = getModifiers w (query R) \<and>
         getModifiersString E (fst (fluent E b R w)) (query R) = getModifiersString E w (query R) \<and>
         (\<forall>q. q < next_query w \<longrightarrow>
            getModifiers (fst (fluent E b R w)) q = getModifiers w q) \<and>
         trace (fst (fluent E b R w)) = trace w \<and>
         (case modifier_change E b (getModifiers w (query R)) of
            Inr ms \<Rightarrow>
              snd (fluent E b R w) = Inr \<lparr>path = path R, query = next_query w\<rparr> \<and>
              getModifiers (fst (fluent E b R w)) (next_query w) = ms
          | Inl e \<Rightarrow> snd (fluent E b R w) = Inl e)"
  using assms
  by (simp add: getModifiers_def getModifiersString_def fluent_cells fluent_result fluent_trace
      split: sum.split)

text \<open>
  At the sample Reference, whose Query holds \<open>orderByKey\<close>: \<^verbatim>\<open>limitToFirst(5)\<close> returns a
  Reference with both modifiers, \<^verbatim>\<open>limitToFirst(-1)\<close> throws, and the sample Reference keeps
  its one modifier in both cases.
\<close>

theorem fluent_builder_frame_witness:
  "query example_ref < next_query example_world \<and>
   getModifiers example_world (query example_ref) = [''orderByKey''] \<and>
   getModifiers (fst (fluent example_collab (LimitToFirst (Num 5)) example_ref example_world))
       (query example_ref) = [''orderByKey''] \<and>
   snd (fluent example_collab (LimitToFirst (Num 5)) example_ref example_world) =
     Inr \<lparr>path = ''/users'', query = 1\<rparr> \<and>
   getModifiers (fst (fluent example_collab (LimitToFirst (Num 5)) example_ref example_world)) 1 =
     [''orderByKey'', ''limitToFirst''] \<and>
   snd (fluent example_collab (LimitToFirst (Num (- 1))) example_ref example_world) =
     Inl (ErrorV ''InvalidModifierError'') \<and>
   getModifiers (fst (fluent example_collab (LimitToFirst (Num (- 1))) example_ref example_world))
       (query example_ref) = [''orderByKey'']"
  using
    fluent_builder_frame [where R = example_ref and w = example_world and E = example_collab
      and b = "LimitToFirst (Num 5)"]
    fluent_builder_frame [where R = example_ref and w = example_world and E = example_collab
      and b = "LimitToFirst (Num (- 1))"]
  by (simp add: example_ref_def example_world_def example_collab_def getModifiers_def)

section \<open>Serializing \<^verbatim>\<open>null\<close>\<close>

text \<open>
  Claim C2, as amended. \<^verbatim>\<open>_serializeAnyType(null)\<close> is the envelope
  \<^verbatim>\<open>{type: "object", value: null}\<close>: \<^verbatim>\<open>null\<close> does not pass \<^verbatim>\<open>isObject\<close>, so the envelope
  comes from the second branch, whose tag is \<^verbatim>\<open>typeof null\<close>, and the value is passed on
  as it is. \<^verbatim>\<open>set(null)\<close> hands this envelope to the transport boundary.
\<close>

theorem serialize_null:
  "serializeAnyType E Null = Obj [(''type'', Str ''object''), (''value'', Null)] \<and>
   isObject Null = False \<and>
   typeof Null = ''object'' \<and>
   set_value E R Null answer w =
     promisify ''set'' [Str (path R), Obj [(''type'', Str ''object''), (''value'', Null)]] answer w"
  by (simp add: serializeAnyType_def set_value_def)

text \<open>The envelope is not the one tagged \<^verbatim>\<open>"null"\<close>.\<close>

theorem serialize_null_counterexample:
  "serializeAnyType example_collab Null \<noteq> Obj [(''type'', Str ''null''), (''value'', Null)]"
  by (simp add: serializeAnyType_def)

section \<open>Failure of \<^verbatim>\<open>once\<close>\<close>



section \<open>Failure of \<^verbatim>\<open>push\<close>\<close>

lemma push_rejected_without_callback:
  "v \<noteq> Null \<Longrightarrow> v \<noteq> Undefined \<Longrightarrow> \<not> isFunction onComplete \<Longrightarrow>
   push E R v onComplete (Rejects e) w =
     (record_event (Native ''push'' [Str (path R), serializeAnyType E v]) w,
      Pending_result (Fulfilled e))"
  by (simp add: push_def promisify_def then_p_def catch_p_def)

lemma push_rejected_with_callback:
  "v \<noteq> Null \<Longrightarrow> v \<noteq> Undefined \<Longrightarrow> isFunction onComplete \<Longrightarrow>
   push E R v onComplete (Rejects e) w =
     (record_event (Call onComplete [e, Null])
        (record_event (Native ''push'' [Str (path R), serializeAnyType E v]) w),
      Pending_result (Fulfilled (callback_result E onComplete [e, Null])))"
  by (simp add: push_def promisify_def then_p_def catch_p_def invoke_def)

text \<open>
  Claim C4, where the code departs from it. \<^verbatim>\<open>push("hello")\<close> with no onComplete, on a
  transport call that rejects with the error \<open>permission denied\<close>: the handler of
  \<^verbatim>\<open>.catch\<close> returns the error, so the pending result is fulfilled with the error as its
  value. It is not rejected.
\<close>

theorem push_rejection_is_fulfilled:
  "push example_collab example_ref (Str ''hello'') Undefined
       (Rejects (ErrorV ''permission denied'')) example_world =
     (record_event
        (Native ''push''
           [Str ''/users'', Obj [(''type'', Str ''string''), (''value'', Str ''hello'')]])
        example_world,
      Pending_result (Fulfilled (ErrorV ''permission denied'')))"
  by (simp add: push_rejected_without_callback serializeAnyType_def example_ref_def)

text \<open>
  With an invocable onComplete and a value that is present, a transport call that rejects
  with \<open>e\<close> has onComplete invoked once, with \<open>(e, null)\<close>, after the one transport call.
\<close>

theorem push_failure_callback:
  "v \<noteq> Null \<and> v \<noteq> Undefined \<and> isFunction onComplete \<longrightarrow>
   push E R v onComplete (Rejects e) w =
     (record_event (Call onComplete [e, Null])
        (record_event (Native ''push'' [Str (path R), serializeAnyType E v]) w),
      Pending_result (Fulfilled (callback_result E onComplete [e, Null])))"
  by (simp add: push_rejected_with_callback)

theorem push_failure_callback_witness:
  "(Num 1 \<noteq> Null \<and> Num 1 \<noteq> Undefined \<and> isFunction (Fun 3)) \<and>
   trace (fst (push example_collab example_ref (Num 1) (Fun 3) (Rejects (Str ''offline''))
       example_world)) =
     [Native ''push'' [Str ''/users'', Obj [(''type'', Str ''number''), (''value'', Num 1)]],
      Call (Fun 3) [Str ''offline'', Null]]"
  using push_failure_callback [where v = "Num 1" and onComplete = "Fun 3" and E = example_collab
      and R = example_ref and e = "Str ''offline''" and w = example_world]
  by (simp add: example_ref_def example_world_def record_event_def serializeAnyType_def)

section \<open>Registration with \<^verbatim>\<open>on\<close>\<close>

text \<open>
  Claim C5, as amended. \<^verbatim>\<open>on\<close> throws, and registers nothing, when successCallback is
  not invocable, and likewise when a truthy failureCallback is not invocable (the guard is
  \<^verbatim>\<open>failureCallback && !isFunction(failureCallback)\<close>). In every other case, a falsy
  failureCallback included, it registers path, encoded key, modifier list, event type and
  the two callbacks with the listener registry, and returns successCallback.
\<close>

theorem on_validation:
  "(\<not> isFunction successCallback \<longrightarrow>
      on E R eventType successCallback failureCallback w =
        (w, Inl (ErrorV ''The specified callback must be a function''))) \<and>
   (isFunction successCallback \<and> truthy failureCallback \<and> \<not> isFunction failureCallback \<longrightarrow>
      on E R eventType successCallback failureCallback w =
        (w, Inl (ErrorV ''The specified error callback must be a function''))) \<and>
   (isFunction successCallback \<and> (isFunction failureCallback \<or> \<not> truthy failureCallback) \<longrightarrow>
      on E R eventType successCallback failureCallback w =
        (record_event
           (ListenerOn (path R) (getModifiersString E w (query R)) (getModifiers w (query R))
              eventType successCallback failureCallback) w,
         Inr successCallback))"
  by (auto simp add: on_def)

theorem on_validation_witness:
  "\<not> isFunction Null \<and>
   on example_collab example_ref (Str ''value'') Null Undefined example_world =
     (example_world, Inl (ErrorV ''The specified callback must be a function'')) \<and>
   (isFunction (Fun 1) \<and> truthy (Str ''cb'') \<and> \<not> isFunction (Str ''cb'')) \<and>
   on example_collab example_ref (Str ''value'') (Fun 1) (Str ''cb'') example_world =
     (example_world, Inl (ErrorV ''The specified error callback must be a function'')) \<and>
   (isFunction (Fun 1) \<and> (isFunction (Fun 2) \<or> \<not> truthy (Fun 2))) \<and>
   on example_collab example_ref (Str ''value'') (Fun 1) (Fun 2) example_world =
     (record_event
        (ListenerOn ''/users'' ''orderByKey'' [''orderByKey''] (Str ''value'') (Fun 1) (Fun 2))
        example_world,
      Inr (Fun 1)) \<and>
   (isFunction (Fun 1) \<and> (isFunction Undefined \<or> \<not> truthy Undefined)) \<and>
   on example_collab example_ref (Str ''value'') (Fun 1) Undefined example_world =
     (record_event
        (ListenerOn ''/users'' ''orderByKey'' [''orderByKey''] (Str ''value'') (Fun 1) Undefined)
        example_world,
      Inr (Fun 1))"
  using
    on_validation [where successCallback = "Fun 1" and failureCallback = Undefined
      and E = example_collab and R = example_ref and eventType = "Str ''value''"
      and w = example_world]
    on_validation [where successCallback = Null and failureCallback = Undefined
      and E = example_collab and R = example_ref and eventType = "Str ''value''"
      and w = example_world]
    on_validation [where successCallback = "Fun 1" and failureCallback = "Str ''cb''"
      and E = example_collab and R = example_ref and eventType = "Str ''value''"
      and w = example_world]
    on_validation [where successCallback = "Fun 1" and failureCallback = "Fun 2"
      and E = example_collab and R = example_ref and eventType = "Str ''value''"
      and w = example_world]
  by (simp add: example_ref_def example_world_def example_collab_def getModifiers_def
      getModifiersString_def)

text \<open>
  \<^verbatim>\<open>on("value", f, false)\<close>: the third argument is given and is not invocable, yet the
  call does not throw; it registers the listener with \<^verbatim>\<open>false\<close> as the failure callback.
\<close>

theorem on_falsy_failure_callback_counterexample:
  "\<not> isFunction (Bool False) \<and>
   Bool False \<noteq> Undefined \<and>
   (\<nexists>e. snd (on example_collab example_ref (Str ''value'') (Fun 1) (Bool False) example_world)
          = Inl e) \<and>
   on example_collab example_ref (Str ''value'') (Fun 1) (Bool False) example_world =
     (record_event
        (ListenerOn ''/users'' ''orderByKey'' [''orderByKey''] (Str ''value'') (Fun 1) (Bool False))
        example_world,
      Inr (Fun 1))"
  by (simp add: on_def example_ref_def example_world_def example_collab_def getModifiers_def
      getModifiersString_def)

section \<open>\<^verbatim>\<open>transaction\<close> and its completion adapter\<close>

lemma typeof_function: "(typeof v = ''function'') = isFunction v"
  by (cases v) simp_all

lemma adapter_rejects:
  "truthy error \<Longrightarrow> isFunction onComplete \<longrightarrow> (\<exists>r. completes [error, committed, Null] = Returns r) \<Longrightarrow>
   onCompleteWrapper E completes R onComplete error committed snapshotData (w, Pending) =
     ((record_event (RejectCall error)
         (if isFunction onComplete then record_event (Call onComplete [error, committed, Null]) w
          else w),
       Settled (Rejected error)), None)"
  by (auto simp add: onCompleteWrapper_def reject_def called_def typeof_function)

lemma adapter_resolves:
  "\<not> truthy error \<Longrightarrow> snapshot_throws E R snapshotData = None \<Longrightarrow>
   isFunction onComplete \<longrightarrow>
     (\<exists>r. completes [Null, committed, SnapV R snapshotData] = Returns r) \<Longrightarrow>
   onCompleteWrapper E completes R onComplete error committed snapshotData (w, Pending) =
     ((record_event
         (ResolveCall (Obj [(''committed'', committed), (''snapshot'', SnapV R snapshotData)]))
         (if isFunction onComplete then
            record_event (Call onComplete [Null, committed, SnapV R snapshotData]) w
          else w),
       Settled (Fulfilled
         (Obj [(''committed'', committed), (''snapshot'', SnapV R snapshotData)]))), None)"
  by (auto simp add: onCompleteWrapper_def resolve_def called_def typeof_function)

lemma adapter_left_by_callback:
  "isFunction onComplete \<Longrightarrow>
   completes [if truthy error then error else Null, committed,
              if truthy error then Null else SnapV R snapshotData] = Throws x \<Longrightarrow>
   truthy error \<or> snapshot_throws E R snapshotData = None \<Longrightarrow>
   onCompleteWrapper E completes R onComplete error committed snapshotData (w, Pending) =
     ((record_event
         (Call onComplete
            [if truthy error then error else Null, committed,
             if truthy error then Null else SnapV R snapshotData]) w,
       Pending), Some x)"
  by (auto simp add: onCompleteWrapper_def called_def typeof_function)

lemma adapter_left_by_snapshot:
  "\<not> truthy error \<Longrightarrow> snapshot_throws E R snapshotData = Some x \<Longrightarrow>
   onCompleteWrapper E completes R onComplete error committed snapshotData (w, Pending) =
     ((w, Pending), Some x)"
  by (simp add: onCompleteWrapper_def)

lemma adapter_settle_calls:
  "settle_calls (trace (fst (fst
       (onCompleteWrapper E completes R onComplete error committed snapshotData (w, p))))) =
     settle_calls (trace w) @
       (case snd (onCompleteWrapper E completes R onComplete error committed snapshotData (w, p)) of
          Some x \<Rightarrow> []
        | None \<Rightarrow>
            [if truthy error then RejectCall error
             else ResolveCall
               (Obj [(''committed'', committed), (''snapshot'', SnapV R snapshotData)])])"
  by (simp add: onCompleteWrapper_def resolve_def reject_def called_def record_event_def
      settle_calls_def split: completion.split option.split)

text \<open>
  Claim C6, as amended. When transactionUpdate is not invocable, \<^verbatim>\<open>transaction\<close> returns a
  pending result that is already rejected; it throws nothing and leaves no entry with the
  transaction queue. Otherwise it adds one entry to the queue, and the pending result is
  what the completion adapter makes of it when the queue calls the adapter. Called with an
  error, the adapter invokes onComplete with \<open>(error, committed, null)\<close> if onComplete is a
  function, and then rejects with the error. Called without an error, it wraps the data
  into a Snapshot of this Reference, invokes onComplete with \<open>(null, committed, snapshot)\<close>
  if onComplete is a function, and then resolves with \<^verbatim>\<open>{committed, snapshot}\<close>. When
  onComplete or the Snapshot constructor throws, the thrown value leaves the adapter,
  neither \<^verbatim>\<open>resolve\<close> nor \<^verbatim>\<open>reject\<close> is called and the pending result stays pending. So one
  call of the adapter makes at most one call of \<^verbatim>\<open>resolve\<close> or \<^verbatim>\<open>reject\<close>, and exactly one
  when nothing is thrown inside it.
\<close>

theorem transaction_contract:
  "(\<not> isFunction transactionUpdate \<longrightarrow>
      transaction E completes R transactionUpdate onComplete applyLocally report w =
        (w, Settled (Rejected (ErrorV ''Missing transactionUpdate function argument.'')))) \<and>
   (isFunction transactionUpdate \<longrightarrow>
      transaction E completes R transactionUpdate onComplete applyLocally None w =
        (record_event
           (TransactionAdd R transactionUpdate
              (if applyLocally = Undefined then Bool False else applyLocally)) w,
         Pending) \<and>
      transaction E completes R transactionUpdate onComplete applyLocally
          (Some (error, committed, snapshotData)) w =
        fst (onCompleteWrapper E completes R onComplete error committed snapshotData
          (record_event
             (TransactionAdd R transactionUpdate
                (if applyLocally = Undefined then Bool False else applyLocally)) w,
           Pending))) \<and>
   (truthy error \<and>
    (isFunction onComplete \<longrightarrow> (\<exists>r. completes [error, committed, Null] = Returns r)) \<longrightarrow>
      onCompleteWrapper E completes R onComplete error committed snapshotData (w, Pending) =
        ((record_event (RejectCall error)
            (if isFunction onComplete then
               record_event (Call onComplete [error, committed, Null]) w
             else w),
          Settled (Rejected error)), None)) \<and>
   (\<not> truthy error \<and> snapshot_throws E R snapshotData = None \<and>
    (isFunction onComplete \<longrightarrow>
       (\<exists>r. completes [Null, committed, SnapV R snapshotData] = Returns r)) \<longrightarrow>
      onCompleteWrapper E completes R onComplete error committed snapshotData (w, Pending) =
        ((record_event
            (ResolveCall (Obj [(''committed'', committed), (''snapshot'', SnapV R snapshotData)]))
            (if isFunction onComplete then
               record_event (Call onComplete [Null, committed, SnapV R snapshotData]) w
             else w),
          Settled (Fulfilled
            (Obj [(''committed'', committed), (''snapshot'', SnapV R snapshotData)]))), None)) \<and>
   (truthy error \<and> isFunction onComplete \<and>
    completes [error, committed, Null] = Throws x \<longrightarrow>
      onCompleteWrapper E completes R onComplete error committed snapshotData (w, Pending) =
        ((record_event (Call onComplete [error, committed, Null]) w, Pending), Some x)) \<and>
   (\<not> truthy error \<and> snapshot_throws E R snapshotData = Some x \<longrightarrow>
      onCompleteWrapper E completes R onComplete error committed snapshotData (w, Pending) =
        ((w, Pending), Some x)) \<and>
   (\<not> truthy error \<and> snapshot_throws E R snapshotData = None \<and> isFunction onComplete \<and>
    completes [Null, committed, SnapV R snapshotData] = Throws x \<longrightarrow>
      onCompleteWrapper E completes R onComplete error committed snapshotData (w, Pending) =
        ((record_event (Call onComplete [Null, committed, SnapV R snapshotData]) w, Pending),
         Some x)) \<and>
   settle_calls (trace (fst (fst
       (onCompleteWrapper E completes R onComplete error committed snapshotData (w, p))))) =
     settle_calls (trace w) @
       (case snd (onCompleteWrapper E completes R onComplete error committed snapshotData (w, p)) of
          Some x \<Rightarrow> []
        | None \<Rightarrow>
            [if truthy error then RejectCall error
             else ResolveCall
               (Obj [(''committed'', committed), (''snapshot'', SnapV R snapshotData)])])"
proof (intro conjI impI)
  assume "\<not> isFunction transactionUpdate"
  then show "transaction E completes R transactionUpdate onComplete applyLocally report w =
      (w, Settled (Rejected (ErrorV ''Missing transactionUpdate function argument.'')))"
    by (simp add: transaction_def)
next
  assume "isFunction transactionUpdate"
  then show "transaction E completes R transactionUpdate onComplete applyLocally None w =
      (record_event
         (TransactionAdd R transactionUpdate
            (if applyLocally = Undefined then Bool False else applyLocally)) w,
       Pending)"
    by (simp add: transaction_def)
next
  assume "isFunction transactionUpdate"
  then show "transaction E completes R transactionUpdate onComplete applyLocally
        (Some (error, committed, snapshotData)) w =
      fst (onCompleteWrapper E completes R onComplete error committed snapshotData
        (record_event
           (TransactionAdd R transactionUpdate
              (if applyLocally = Undefined then Bool False else applyLocally)) w,
         Pending))"
    by (simp add: transaction_def)
next
  assume "truthy error \<and>
    (isFunction onComplete \<longrightarrow> (\<exists>r. completes [error, committed, Null] = Returns r))"
  then show "onCompleteWrapper E completes R onComplete error committed snapshotData (w, Pending) =
      ((record_event (RejectCall error)
          (if isFunction onComplete then
             record_event (Call onComplete [error, committed, Null]) w
           else w),
        Settled (Rejected error)), None)"
    by (simp add: adapter_rejects)
next
  assume "\<not> truthy error \<and> snapshot_throws E R snapshotData = None \<and>
    (isFunction onComplete \<longrightarrow>
       (\<exists>r. completes [Null, committed, SnapV R snapshotData] = Returns r))"
  then show "onCompleteWrapper E completes R onComplete error committed snapshotData (w, Pending) =
      ((record_event
          (ResolveCall (Obj [(''committed'', committed), (''snapshot'', SnapV R snapshotData)]))
          (if isFunction onComplete then
             record_event (Call onComplete [Null, committed, SnapV R snapshotData]) w
           else w),
        Settled (Fulfilled
          (Obj [(''committed'', committed), (''snapshot'', SnapV R snapshotData)]))), None)"
    by (simp add: adapter_resolves)
next
  assume "truthy error \<and> isFunction onComplete \<and>
    completes [error, committed, Null] = Throws x"
  then show "onCompleteWrapper E completes R onComplete error committed snapshotData (w, Pending) =
      ((record_event (Call onComplete [error, committed, Null]) w, Pending), Some x)"
    using adapter_left_by_callback [of onComplete completes error committed R snapshotData x E w]
    by simp
next
  assume "\<not> truthy error \<and> snapshot_throws E R snapshotData = Some x"
  then show "onCompleteWrapper E completes R onComplete error committed snapshotData (w, Pending) =
      ((w, Pending), Some x)"
    by (simp add: adapter_left_by_snapshot)
next
  assume "\<not> truthy error \<and> snapshot_throws E R snapshotData = None \<and> isFunction onComplete \<and>
    completes [Null, committed, SnapV R snapshotData] = Throws x"
  then show "onCompleteWrapper E completes R onComplete error committed snapshotData (w, Pending) =
      ((record_event (Call onComplete [Null, committed, SnapV R snapshotData]) w, Pending),
       Some x)"
    using adapter_left_by_callback [of onComplete completes error committed R snapshotData x E w]
    by simp
next
  show "settle_calls (trace (fst (fst
       (onCompleteWrapper E completes R onComplete error committed snapshotData (w, p))))) =
     settle_calls (trace w) @
       (case snd (onCompleteWrapper E completes R onComplete error committed snapshotData (w, p)) of
          Some x \<Rightarrow> []
        | None \<Rightarrow>
            [if truthy error then RejectCall error
             else ResolveCall
               (Obj [(''committed'', committed), (''snapshot'', SnapV R snapshotData)])])"
    by (rule adapter_settle_calls)
qed

text \<open>
  With an onComplete that returns: a transactionUpdate that is not invocable, an entry the
  queue never reports on, a report with an error and a report without one.
\<close>

theorem transaction_contract_witness:
  "\<not> isFunction (Str ''oops'') \<and> isFunction (Fun 1) \<and> isFunction (Fun 2) \<and>
   truthy (ErrorV ''aborted'') \<and> \<not> truthy Null \<and>
   snapshot_throws example_collab example_ref (Num 3) = None \<and>
   transaction example_collab (\<lambda>args. Returns Undefined) example_ref (Str ''oops'') (Fun 2)
       Undefined (Some (Null, Bool True, Num 3)) example_world =
     (example_world,
      Settled (Rejected (ErrorV ''Missing transactionUpdate function argument.''))) \<and>
   transaction example_collab (\<lambda>args. Returns Undefined) example_ref (Fun 1) (Fun 2)
       Undefined None example_world =
     (record_event (TransactionAdd example_ref (Fun 1) (Bool False)) example_world, Pending) \<and>
   transaction example_collab (\<lambda>args. Returns Undefined) example_ref (Fun 1) (Fun 2)
       Undefined (Some (ErrorV ''aborted'', Bool False, Null)) example_world =
     (record_event (RejectCall (ErrorV ''aborted''))
        (record_event (Call (Fun 2) [ErrorV ''aborted'', Bool False, Null])
           (record_event (TransactionAdd example_ref (Fun 1) (Bool False)) example_world)),
      Settled (Rejected (ErrorV ''aborted''))) \<and>
   transaction example_collab (\<lambda>args. Returns Undefined) example_ref (Fun 1) (Fun 2)
       Undefined (Some (Null, Bool True, Num 3)) example_world =
     (record_event
        (ResolveCall (Obj [(''committed'', Bool True), (''snapshot'', SnapV example_ref (Num 3))]))
        (record_event (Call (Fun 2) [Null, Bool True, SnapV example_ref (Num 3)])
           (record_event (TransactionAdd example_ref (Fun 1) (Bool False)) example_world)),
      Settled (Fulfilled
        (Obj [(''committed'', Bool True), (''snapshot'', SnapV example_ref (Num 3))])))"
  using
    transaction_contract [where transactionUpdate = "Str ''oops''" and E = example_collab
      and completes = "\<lambda>args. Returns Undefined"
      and R = example_ref and onComplete = "Fun 2" and applyLocally = Undefined
      and report = "Some (Null, Bool True, Num 3)" and w = example_world
      and error = Null and committed = "Bool True" and snapshotData = "Num 3"]
    transaction_contract [where transactionUpdate = "Fun 1" and E = example_collab
      and completes = "\<lambda>args. Returns Undefined"
      and R = example_ref and onComplete = "Fun 2" and applyLocally = Undefined
      and w = "record_event (TransactionAdd example_ref (Fun 1) (Bool False)) example_world"
      and error = "ErrorV ''aborted''" and committed = "Bool False" and snapshotData = Null]
    transaction_contract [where transactionUpdate = "Fun 1" and E = example_collab
      and completes = "\<lambda>args. Returns Undefined"
      and R = example_ref and onComplete = "Fun 2" and applyLocally = Undefined
      and w = "record_event (TransactionAdd example_ref (Fun 1) (Bool False)) example_world"
      and error = Null and committed = "Bool True" and snapshotData = "Num 3"]
  by (simp add: transaction_def example_collab_def)

text \<open>
  An onComplete that throws, on a report with an error: the adapter invokes it and is left
  by the thrown value, so the trace holds no call of \<^verbatim>\<open>resolve\<close> or \<^verbatim>\<open>reject\<close> and the
  pending result stays pending. The same on a report without an error whose data the
  Snapshot constructor refuses.
\<close>

theorem transaction_throwing_callback_counterexample:
  "transaction example_collab (\<lambda>args. Throws (ErrorV ''boom'')) example_ref (Fun 1) (Fun 2)
       Undefined (Some (ErrorV ''aborted'', Bool False, Null)) example_world =
     (record_event (Call (Fun 2) [ErrorV ''aborted'', Bool False, Null])
        (record_event (TransactionAdd example_ref (Fun 1) (Bool False)) example_world),
      Pending) \<and>
   settle_calls (trace (fst
     (transaction example_collab (\<lambda>args. Throws (ErrorV ''boom'')) example_ref (Fun 1) (Fun 2)
        Undefined (Some (ErrorV ''aborted'', Bool False, Null)) example_world))) = [] \<and>
   transaction example_collab (\<lambda>args. Returns Undefined) example_ref (Fun 1) Undefined
       Undefined (Some (Null, Bool True, Null)) example_world =
     (record_event (TransactionAdd example_ref (Fun 1) (Bool False)) example_world, Pending)"
  by (simp add: transaction_def onCompleteWrapper_def called_def record_event_def
      settle_calls_def example_collab_def example_world_def)

section \<open>Children and parents\<close>

lemma lastIndexOf_absent: "c \<notin> set xs \<Longrightarrow> lastIndexOf xs c = - 1"
  by (induction xs) auto

lemma lastIndexOf_append_sep:
  "c \<notin> set seg \<Longrightarrow> lastIndexOf (p @ c # seg) c = int (length p)"
  by (induction p) (auto simp: lastIndexOf_absent)

lemma substring_prefix: "substring (p @ s) 0 (int (length p)) = p"
  by (simp add: substring_def Let_def)

text \<open>
  Claim C7. For every Reference \<open>R\<close> and segment \<open>p\<close>, \<^verbatim>\<open>child(p)\<close> returns a new Reference
  whose path is the path of \<open>R\<close>, a slash, and \<open>p\<close>, and whose Query is a fresh one with no
  modifiers. In particular the child \<open>a\<close> of the root Reference has the path \<open>//a\<close>, which
  is \<open>/a\<close> or an equivalent normalized form: it has no trailing slash, and its segments
  are those of \<open>/a\<close>.
\<close>

theorem child_path:
  "path (snd (child R p w)) = path R @ ''/'' @ p \<and>
   getModifiers (fst (child R p w)) (query (snd (child R p w))) = [] \<and>
   query (snd (child R p w)) = next_query w \<and>
   path (snd (child \<lparr>path = ''/'', query = q\<rparr> ''a'' w)) = ''//a'' \<and>
   (path (snd (child \<lparr>path = ''/'', query = q\<rparr> ''a'' w)) = ''/a'' \<or>
    normalized_path (path (snd (child \<lparr>path = ''/'', query = q\<rparr> ''a'' w))) \<and>
    segments (path (snd (child \<lparr>path = ''/'', query = q\<rparr> ''a'' w))) = segments ''/a'')"
  by (simp add: child_def Reference_new_def Query_new_def getModifiers_def normalized_path_def
      segments_def)

text \<open>
  Claim C8. The parent of the root Reference is \<^verbatim>\<open>null\<close>. For every Reference \<open>R\<close> and
  every segment that is not empty and has no slash in it (\<open>x\<close> is one), the parent of the
  child of \<open>R\<close> at that segment is a Reference with the path of \<open>R\<close>. The parent of \<open>/a/b\<close> is
  \<open>/a\<close>.
\<close>

theorem parent_of_child:
  "snd (parent \<lparr>path = ''/'', query = q\<rparr> w) = None \<and>
   (seg \<noteq> [] \<and> CHR ''/'' \<notin> set seg \<longrightarrow>
      map_option path (snd (parent (snd (child R seg w)) w')) = Some (path R)) \<and>
   map_option path (snd (parent \<lparr>path = ''/a/b'', query = q\<rparr> w)) = Some ''/a''"
proof (intro conjI impI)
  show "snd (parent \<lparr>path = ''/'', query = q\<rparr> w) = None"
    by (simp add: parent_def)
next
  assume hyp: "seg \<noteq> [] \<and> CHR ''/'' \<notin> set seg"
  then have seg: "CHR ''/'' \<notin> set seg" and nonempty: "seg \<noteq> []"
    by simp_all
  have p: "path (snd (child R seg w)) = path R @ CHR ''/'' # seg"
    by (simp add: child_def Reference_new_def Query_new_def)
  have ne: "path R @ CHR ''/'' # seg \<noteq> ''/''"
    using nonempty by (cases "path R") auto
  show "map_option path (snd (parent (snd (child R seg w)) w')) = Some (path R)"
    using seg ne
    by (simp add: parent_def p lastIndexOf_append_sep substring_prefix
        Reference_new_def Query_new_def)
next
  have l: "lastIndexOf ''/a/b'' CHR ''/'' = 2"
    by simp
  show "map_option path (snd (parent \<lparr>path = ''/a/b'', query = q\<rparr> w)) = Some ''/a''"
    by (simp add: parent_def l substring_def Reference_new_def Query_new_def)
qed

theorem parent_of_child_witness:
  "(''x'' \<noteq> [] \<and> CHR ''/'' \<notin> set ''x'') \<and>
   path example_ref \<noteq> ''/'' \<and>
   path (snd (child example_ref ''x'' example_world)) = ''/users/x'' \<and>
   map_option path
     (snd (parent (snd (child example_ref ''x'' example_world))
        (fst (child example_ref ''x'' example_world)))) = Some ''/users''"
  using parent_of_child [where q = 0 and w = example_world and seg = "''x''" and R = example_ref
      and w' = "fst (child example_ref ''x'' example_world)"]
  by (simp add: example_ref_def child_def Reference_new_def Query_new_def)

section \<open>\<^verbatim>\<open>push\<close> without a value\<close>

text \<open>
  Claim C9. \<^verbatim>\<open>push()\<close> with no value returns at once a new Reference, with a fresh empty
  Query, whose path is the path of this Reference, a slash, and the identifier that
  \<^verbatim>\<open>generatePushID\<close> makes from \<^verbatim>\<open>database.serverTimeOffset\<close>. The trace is unchanged: no
  transport call is made and no callback is invoked.
\<close>

theorem push_without_value:
  "push E R Undefined onComplete answer w =
     (w\<lparr>cells := (cells w)(next_query w := []), next_query := Suc (next_query w)\<rparr>,
      Synchronous \<lparr>path = path R @ ''/'' @ generatePushID E (serverTimeOffset E),
                   query = next_query w\<rparr>) \<and>
   trace (fst (push E R Undefined onComplete answer w)) = trace w"
  by (simp add: push_def Reference_new_def Query_new_def)

text \<open>
  Claim C10. \<^verbatim>\<open>push(null)\<close> and \<^verbatim>\<open>push(null, cb)\<close> do what \<^verbatim>\<open>push()\<close> does, whatever the
  callback and whatever the transport boundary would answer: the result is a Reference
  returned at once, and the trace is unchanged, so no transport call is made and the
  callback is not invoked.
\<close>

theorem push_null_is_push_without_value:
  "push E R Null onComplete answer w = push E R Undefined Undefined answer' w \<and>
   trace (fst (push E R Null onComplete answer w)) = trace w \<and>
   (\<exists>r. snd (push E R Null onComplete answer w) = Synchronous r)"
  by (simp add: push_def Reference_new_def Query_new_def)

end
